theory Spec2Isabelle
  imports Complex_Main
begin

section \<open>Python values and the request graph\<close>

text \<open>
  The library runs no raster computation of its own: every function takes handles of the
  remote platform and returns a handle of the request graph it has extended. A handle is
  modelled as the term of the calls that built it. Python values that reach the graph
  (configuration entries, literals of the source) are embedded as they are. A finite
  float is given by the rational it denotes.
\<close>

datatype pyval = PyNone | PyBool bool | PyInt int | PyFloat rat | PyStr string | PyDatetime int

text \<open>Floating-point constants of the source stay symbolic: \<open>np.pi / 180\<close> is
  \<open>FDiv FPi (FNum 180)\<close>, the literal \<open>2.6\<close> is \<open>FDec 26 1\<close>.\<close>

datatype pyfloat = FNum int | FDec int nat | FPi | FDiv pyfloat pyfloat

datatype ee =
    Var string
  | Lit pyval
  | Flt pyfloat
  | Lst "ee list"
  | Dict "(string \<times> ee) list"
  | Kw string ee
  | Lam string ee
  | Call string "ee list"

abbreviation Str :: "string \<Rightarrow> ee" where
  "Str s \<equiv> Lit (PyStr s)"

abbreviation Num :: "int \<Rightarrow> ee" where
  "Num n \<equiv> Lit (PyInt n)"

text \<open>\<open>meth obj name args\<close> is the method call \<open>obj.name(args)\<close>.\<close>

abbreviation meth :: "ee \<Rightarrow> string \<Rightarrow> ee list \<Rightarrow> ee" where
  "meth obj name args \<equiv> Call name (obj # args)"

text \<open>Python's truth test, as \<open>if x:\<close> applies it.\<close>

fun truthy :: "pyval \<Rightarrow> bool" where
  "truthy PyNone = False"
| "truthy (PyBool b) = b"
| "truthy (PyInt n) = (n \<noteq> 0)"
| "truthy (PyFloat r) = (r \<noteq> 0)"
| "truthy (PyStr s) = (s \<noteq> [])"
| "truthy (PyDatetime t) = True"

datatype error = KeyError string | TypeError string | UnboundLocalError string | EEException string

text \<open>\<open>d[k]\<close> on a dictionary.\<close>

definition getitem :: "(string \<rightharpoonup> pyval) \<Rightarrow> string \<Rightarrow> error + pyval" where
  "getitem d k = (case d k of None \<Rightarrow> Inl (KeyError k) | Some v \<Rightarrow> Inr v)"

text \<open>The value of a Python number; \<open>bool\<close> is a subtype of \<open>int\<close>.\<close>

fun py_number :: "pyval \<Rightarrow> rat option" where
  "py_number (PyInt n) = Some (of_int n)"
| "py_number (PyFloat r) = Some r"
| "py_number (PyBool b) = Some (if b then 1 else 0)"
| "py_number v = None"

text \<open>Unary minus and the comparison \<open>x > 0\<close> (Python 3: only numbers are ordered
  against a number).\<close>

fun py_neg :: "pyval \<Rightarrow> error + pyval" where
  "py_neg (PyInt n) = Inr (PyInt (- n))"
| "py_neg (PyFloat r) = Inr (PyFloat (- r))"
| "py_neg (PyBool b) = Inr (PyInt (if b then - 1 else 0))"
| "py_neg v = Inl (TypeError ''bad operand type for unary -'')"

fun py_gt_zero :: "pyval \<Rightarrow> error + bool" where
  "py_gt_zero (PyInt n) = Inr (n > 0)"
| "py_gt_zero (PyFloat r) = Inr (r > 0)"
| "py_gt_zero (PyBool b) = Inr b"
| "py_gt_zero v = Inl (TypeError ''> not supported'')"

section \<open>The client library\<close>

text \<open>
  The platform's client library is not part of the repository. While the graph is built
  it checks some of the Python values it is handed and raises \<open>EEException\<close> for one it
  cannot convert. \<open>ee.Kernel.square(radius, units)\<close> and \<open>ee.Image(elevation)\<close> receive a
  configuration value that the code around them has not used as a number or a date
  before; which values such a call accepts is the library's matter: \<open>accepts f args\<close> is a
  parameter of the model. Every other call of the client is taken to raise nothing while
  the graph is built.
\<close>

type_synonym client = "string \<Rightarrow> pyval list \<Rightarrow> bool"

definition client_check :: "client \<Rightarrow> string \<Rightarrow> pyval list \<Rightarrow> error + unit" where
  "client_check accepts f args = (if accepts f args then Inr () else Inl (EEException f))"

text \<open>\<open>collection.map(f)\<close>: the client calls \<open>f\<close> once, on a placeholder for the elements
  of the collection, and records the graph that \<open>f\<close> returns; an exception raised by \<open>f\<close>
  leaves \<open>map\<close>.\<close>

definition ee_map :: "ee \<Rightarrow> string \<Rightarrow> (ee \<Rightarrow> error + ee) \<Rightarrow> error + ee" where
  "ee_map collection var f =
     (case f (Var var) of
        Inl e \<Rightarrow> Inl e
      | Inr body \<Rightarrow> Inr (meth collection ''map'' [Lam var body]))"

section \<open>misc/\_quegan.py\<close>

definition S1_GRD_FLOAT :: string where
  "S1_GRD_FLOAT = ''COPERNICUS/S1_GRD_FLOAT''"

text \<open>The local variables \<open>fro\<close>, \<open>to\<close> and \<open>s1\<close> of \<open>apply\<close>; \<open>before\<close> and \<open>after\<close> are
  the entries of the \<open>time_window\<close> dictionary.\<close>

definition quegan_fro :: "ee \<Rightarrow> pyval \<Rightarrow> ee" where
  "quegan_fro img before =
     meth (meth img ''date'' []) ''advance'' [Call ''ee.Number'' [Lit before], Str ''month'']"

definition quegan_to :: "ee \<Rightarrow> pyval \<Rightarrow> ee" where
  "quegan_to img after =
     meth (meth img ''date'' []) ''advance'' [Call ''ee.Number'' [Lit after], Str ''month'']"

definition quegan_s1 :: "ee \<Rightarrow> pyval \<Rightarrow> pyval \<Rightarrow> ee" where
  "quegan_s1 img before after =
     meth (meth (meth (meth (meth (Call ''ee.ImageCollection'' [Str S1_GRD_FLOAT])
       ''filterMetadata'' [Str ''resolution_meters'', Str ''equals'', Num 10])
       ''filterMetadata'' [Str ''instrumentMode'', Str ''equals'', Str ''IW''])
       ''filter'' [Call ''ee.Filter.And''
          [Call ''ee.Filter.listContains'' [Str ''transmitterReceiverPolarisation'', Str ''VV''],
           Call ''ee.Filter.listContains'' [Str ''transmitterReceiverPolarisation'', Str ''VH'']]])
       ''filterDate'' [quegan_fro img before, quegan_to img after])
       ''filter'' [Call ''ee.Filter.eq''
          [Str ''relativeOrbitNumber_start'',
           meth img ''get'' [Str ''relativeOrbitNumber_start'']]]"

definition meanBands :: "ee \<Rightarrow> ee" where
  "meanBands img =
     meth (meth img ''bandNames'' []) ''map''
       [Lam ''b'' (meth (Call ''ee.String'' [Var ''b'']) ''cat'' [Str ''_mean''])]"

definition ratioBands :: "ee \<Rightarrow> ee" where
  "ratioBands img =
     meth (meth img ''bandNames'' []) ''map''
       [Lam ''b'' (meth (Call ''ee.String'' [Var ''b'']) ''cat'' [Str ''_ratio''])]"

definition mapMeanSpace :: "client \<Rightarrow> ee \<Rightarrow> pyval \<Rightarrow> pyval \<Rightarrow> ee \<Rightarrow> error + ee" where
  "mapMeanSpace accepts img radius units i =
     (case client_check accepts ''ee.Kernel.square'' [radius, units] of
        Inl e \<Rightarrow> Inl e
      | Inr u \<Rightarrow>
          Inr (let reducer = Call ''ee.Reducer.mean'' [];
                   kernel = Call ''ee.Kernel.square'' [Lit radius, Lit units];
                   mean = meth (meth i ''reduceNeighborhood'' [reducer, kernel])
                            ''rename'' [meanBands img];
                   ratio = meth (meth i ''divide'' [mean]) ''rename'' [ratioBands img]
               in meth (meth (meth i ''addBands'' [mean]) ''addBands'' [ratio]) ''set'' []))"

text \<open>The filtered bands, before \<open>copyProperties\<close>: the mean bands of the image itself times the
  mean of the ratio bands over the reference collection.\<close>

definition quegan_filtered ::
  "client \<Rightarrow> ee \<Rightarrow> pyval \<Rightarrow> pyval \<Rightarrow> pyval \<Rightarrow> pyval \<Rightarrow> error + ee" where
  "quegan_filtered accepts img radius units before after =
     (case ee_map (quegan_s1 img before after) ''i'' (mapMeanSpace accepts img radius units) of
        Inl e \<Rightarrow> Inl e
      | Inr s1_mean \<Rightarrow>
          Inr (let image_mean = meth (meth s1_mean ''filter''
                      [Call ''ee.Filter.eq''
                         [Str ''system:index'', meth img ''get'' [Str ''system:index'']]])
                      ''first'' [];
                   s1_ratio = meth s1_mean ''select'' [ratioBands img]
               in meth (meth (meth (meth image_mean ''select'' [meanBands img])
                    ''multiply'' [meth s1_ratio ''sum'' []])
                    ''divide'' [meth s1_ratio ''count'' []])
                    ''rename'' [meth img ''bandNames'' []]))"

text \<open>\<open>x.copyProperties(image).set('system:time_start', image.get('system:time_start'))\<close>
  wrapped in \<open>ee.Image\<close>: the way both helpers return their result.\<close>

definition with_properties_of :: "ee \<Rightarrow> ee \<Rightarrow> ee" where
  "with_properties_of x img =
     Call ''ee.Image''
       [meth (meth x ''copyProperties'' [img]) ''set''
          [Str ''system:time_start'', meth img ''get'' [Str ''system:time_start'']]]"

definition quegan_apply :: "client \<Rightarrow> ee \<Rightarrow> pyval \<Rightarrow> pyval \<Rightarrow> pyval \<Rightarrow> error + ee" where
  "quegan_apply accepts img radius units time_window =
     (case py_neg time_window of
        Inl e \<Rightarrow> Inl e
      | Inr before \<Rightarrow>
         (case quegan_filtered accepts img radius units before time_window of
            Inl e \<Rightarrow> Inl e
          | Inr filtered \<Rightarrow> Inr (with_properties_of filtered img)))"

section \<open>misc/\_slope\_correction.py\<close>

definition ninetyRad :: ee where
  "ninetyRad = meth (Call ''ee.Image.constant'' [Num 90]) ''multiply'' [Flt (FDiv FPi (FNum 180))]"

definition volumetric_model_SCF :: "ee \<Rightarrow> ee \<Rightarrow> ee" where
  "volumetric_model_SCF theta_iRad alpha_rRad =
     (let nominator = meth (meth (meth ninetyRad ''subtract'' [theta_iRad]) ''add'' [alpha_rRad]) ''tan'' [];
          denominator = meth (meth ninetyRad ''subtract'' [theta_iRad]) ''tan'' []
      in meth nominator ''divide'' [denominator])"

definition surface_model_SCF :: "ee \<Rightarrow> ee \<Rightarrow> ee \<Rightarrow> ee" where
  "surface_model_SCF theta_iRad alpha_rRad alpha_azRad =
     (let nominator = meth (meth ninetyRad ''subtract'' [theta_iRad]) ''cos'' [];
          denominator = meth (meth alpha_azRad ''cos'' []) ''multiply''
             [meth (meth (meth ninetyRad ''subtract'' [theta_iRad]) ''add'' [alpha_rRad]) ''cos'' []]
      in meth nominator ''divide'' [denominator])"

definition erode :: "ee \<Rightarrow> pyval \<Rightarrow> ee" where
  "erode img distance =
     (let d = meth (meth (meth (meth (meth img ''Not'' []) ''unmask'' [Num 1])
                 ''fastDistanceTransform'' [Num 30]) ''sqrt'' [])
                 ''multiply'' [meth (Call ''ee.Image.pixelArea'' []) ''sqrt'' []]
      in meth img ''updateMask'' [meth d ''gt'' [Lit distance]])"

definition layover_mask :: "ee \<Rightarrow> ee \<Rightarrow> ee" where
  "layover_mask alpha_rRad theta_iRad =
     meth (meth alpha_rRad ''lt'' [theta_iRad]) ''rename'' [Str ''layover'']"

definition shadow_mask :: "ee \<Rightarrow> ee \<Rightarrow> ee" where
  "shadow_mask alpha_rRad theta_iRad =
     meth (meth alpha_rRad ''gt''
        [meth (Call ''ee.Image.constant'' [Num (- 1)]) ''multiply''
           [meth ninetyRad ''subtract'' [theta_iRad]]]) ''rename'' [Str ''shadow'']"

text \<open>The last two statements of \<open>_masking\<close>, on the masks as they stand after the
  \<open>if buffer > 0\<close> block.\<close>

definition combine_masks :: "ee \<Rightarrow> ee \<Rightarrow> ee" where
  "combine_masks layover shadow =
     (let no_data_mask = meth (meth layover ''And'' [shadow]) ''rename'' [Str ''no_data_mask'']
      in meth (meth layover ''addBands'' [shadow]) ''addBands'' [no_data_mask])"

definition masking :: "ee \<Rightarrow> ee \<Rightarrow> pyval \<Rightarrow> error + ee" where
  "masking alpha_rRad theta_iRad buffer =
     (let layover = layover_mask alpha_rRad theta_iRad;
          shadow = shadow_mask alpha_rRad theta_iRad
      in case py_gt_zero buffer of
           Inl e \<Rightarrow> Inl e
         | Inr True \<Rightarrow> Inr (combine_masks (erode layover buffer) (erode shadow buffer))
         | Inr False \<Rightarrow> Inr (combine_masks layover shadow))"

text \<open>The local variables of \<open>correct\<close>, each as a function of what it is computed from.\<close>

definition theta_iRad :: "ee \<Rightarrow> ee" where
  "theta_iRad img =
     meth (meth img ''select'' [Str ''angle'']) ''multiply'' [Flt (FDiv FPi (FNum 180))]"

definition heading :: "ee \<Rightarrow> ee" where
  "heading img =
     meth (meth (Call ''ee.Terrain.aspect'' [meth img ''select'' [Str ''angle'']])
        ''reduceRegion'' [Call ''ee.Reducer.mean'' [], meth img ''geometry'' [], Num 1000])
        ''get'' [Str ''aspect'']"

definition phi_iRad :: "ee \<Rightarrow> ee" where
  "phi_iRad img =
     meth (Call ''ee.Image.constant'' [heading img]) ''multiply'' [Flt (FDiv FPi (FNum 180))]"

text \<open>\<open>elevation = ee.Image(elevation).resample()\<close>: the client converts the configured
  elevation model to an image, or raises.\<close>

definition resampled_elevation :: "client \<Rightarrow> pyval \<Rightarrow> error + ee" where
  "resampled_elevation accepts elevation =
     (case client_check accepts ''ee.Image'' [elevation] of
        Inl e \<Rightarrow> Inl e
      | Inr u \<Rightarrow> Inr (meth (Call ''ee.Image'' [Lit elevation]) ''resample'' []))"

definition terrain_angle :: "string \<Rightarrow> string \<Rightarrow> ee \<Rightarrow> ee \<Rightarrow> ee" where
  "terrain_angle algorithm band img elevation =
     (let geom = meth img ''geometry'' [];
          proj = meth (meth img ''select'' [Num 1]) ''projection'' []
      in meth (meth (meth (meth (Call algorithm [elevation]) ''select'' [Str band])
           ''multiply'' [Flt (FDiv FPi (FNum 180))])
           ''setDefaultProjection'' [proj])
           ''clip'' [geom])"

definition alpha_sRad :: "ee \<Rightarrow> ee \<Rightarrow> ee" where
  "alpha_sRad img elevation = terrain_angle ''ee.Terrain.slope'' ''slope'' img elevation"

definition phi_sRad :: "ee \<Rightarrow> ee \<Rightarrow> ee" where
  "phi_sRad img elevation = terrain_angle ''ee.Terrain.aspect'' ''aspect'' img elevation"

definition phi_rRad :: "ee \<Rightarrow> ee \<Rightarrow> ee" where
  "phi_rRad img elevation = meth (phi_iRad img) ''subtract'' [phi_sRad img elevation]"

definition alpha_rRad :: "ee \<Rightarrow> ee \<Rightarrow> ee" where
  "alpha_rRad img elevation =
     meth (meth (meth (alpha_sRad img elevation) ''tan'' [])
        ''multiply'' [meth (phi_rRad img elevation) ''cos'' []]) ''atan'' []"

definition alpha_azRad :: "ee \<Rightarrow> ee \<Rightarrow> ee" where
  "alpha_azRad img elevation =
     meth (meth (meth (alpha_sRad img elevation) ''tan'' [])
        ''multiply'' [meth (phi_rRad img elevation) ''sin'' []]) ''atan'' []"

definition theta_liaDeg :: "ee \<Rightarrow> ee \<Rightarrow> ee" where
  "theta_liaDeg img elevation =
     (let theta_liaRad = meth (meth (meth (alpha_azRad img elevation) ''cos'' [])
             ''multiply'' [meth (meth (theta_iRad img) ''subtract'' [alpha_rRad img elevation]) ''cos'' []])
             ''acos'' []
      in meth (meth theta_liaRad ''multiply'' [Flt (FDiv (FNum 180) FPi)]) ''rename'' [Str ''LIA''])"

definition gamma0 :: "ee \<Rightarrow> ee" where
  "gamma0 img =
     meth (meth (meth img ''select'' [Lst [Str ''VV'', Str ''VH'']])
        ''divide'' [meth (theta_iRad img) ''cos'' []])
        ''rename'' [Lst [Str ''VV'', Str ''VH'']]"

text \<open>\<open>scf\<close> is assigned under \<open>if model == 'volume'\<close> and under \<open>if model == 'surface'\<close>
  only; with any other model the name is unbound where \<open>gamma0.divide(scf)\<close> reads it.\<close>

definition scf :: "ee \<Rightarrow> pyval \<Rightarrow> ee \<Rightarrow> error + ee" where
  "scf img model elevation =
     (if model = PyStr ''volume''
        then Inr (volumetric_model_SCF (theta_iRad img) (alpha_rRad img elevation))
      else if model = PyStr ''surface''
        then Inr (surface_model_SCF (theta_iRad img) (alpha_rRad img elevation)
                    (alpha_azRad img elevation))
      else Inl (UnboundLocalError ''scf''))"

text \<open>The bands of the result of \<open>correct\<close>, before the properties are copied.\<close>

definition corrected_bands :: "ee \<Rightarrow> ee \<Rightarrow> ee \<Rightarrow> ee \<Rightarrow> ee" where
  "corrected_bands img elevation scf' masks =
     (let gamma0_flat = meth (meth (gamma0 img) ''divide'' [scf'])
                          ''rename'' [Lst [Str ''VV'', Str ''VH'']]
      in meth (meth (meth gamma0_flat
           ''addBands'' [meth img ''select'' [Str ''angle'']])
           ''addBands'' [theta_liaDeg img elevation])
           ''addBands'' [masks])"

definition correct :: "client \<Rightarrow> ee \<Rightarrow> pyval \<Rightarrow> pyval \<Rightarrow> pyval \<Rightarrow> error + ee" where
  "correct accepts img model elevation buffer =
     (case resampled_elevation accepts elevation of
        Inl e \<Rightarrow> Inl e
      | Inr elevation' \<Rightarrow>
     (case scf img model elevation' of
        Inl e \<Rightarrow> Inl e
      | Inr scf' \<Rightarrow>
         (case masking (alpha_rRad img elevation') (theta_iRad img) buffer of
            Inl e \<Rightarrow> Inl e
          | Inr masks \<Rightarrow>
              Inr (with_properties_of (corrected_bands img elevation' scf' masks) img))))"

section \<open>misc/dates.py and misc/\_refined\_lee.py\<close>

text \<open>
  Modelled from the spec: the module \<open>misc/dates.py\<close> (\<open>subtract_days\<close>, \<open>add_days\<close>) is
  not among the sources. The spec says that a date range is "derived by adding/subtracting
  a fixed day offset (183 days) from a target date". Dates are placed on the time line of
  milliseconds since the epoch (a fraction of a millisecond is dropped); a date string is
  read by \<open>parse\<close>, a parameter. \<open>create\<close> calls the two helpers on a truthy target date
  only.
\<close>

definition millisPerDay :: int where
  "millisPerDay = 1000 * 60 * 60 * 24"

fun to_millis :: "(string \<Rightarrow> int) \<Rightarrow> pyval \<Rightarrow> int" where
  "to_millis parse (PyInt ms) = ms"
| "to_millis parse (PyFloat r) = \<lfloor>r\<rfloor>"
| "to_millis parse (PyDatetime ms) = ms"
| "to_millis parse (PyStr s) = parse s"
| "to_millis parse (PyBool b) = (if b then 1 else 0)"
| "to_millis parse PyNone = 0"

definition subtract_days :: "(string \<Rightarrow> int) \<Rightarrow> pyval \<Rightarrow> rat \<Rightarrow> pyval" where
  "subtract_days parse date n = PyInt (to_millis parse date - \<lfloor>n * of_int millisPerDay\<rfloor>)"

definition add_days :: "(string \<Rightarrow> int) \<Rightarrow> pyval \<Rightarrow> rat \<Rightarrow> pyval" where
  "add_days parse date n = PyInt (to_millis parse date + \<lfloor>n * of_int millisPerDay\<rfloor>)"

text \<open>
  Modelled from the spec: \<open>misc/_refined_lee.py\<close> is not among the sources. The spec lists
  refined-Lee filtering among the "opaque remote operators invoked by name"; the step is
  kept as one named call on the image.
\<close>

definition refined_lee_apply :: "ee \<Rightarrow> ee" where
  "refined_lee_apply img = Call ''_refined_lee.apply'' [img]"

section \<open>s1/s1\_collection.py\<close>

text \<open>The arguments of \<open>create\<close>.\<close>

record config =
  region :: ee
  orbits :: "string list"
  start_date :: pyval
  end_date :: pyval
  target_date :: pyval
  add_ratio :: bool
  add_ND_ratio :: bool
  speckle_filter :: string
  speckle_filter_dict :: "string \<rightharpoonup> pyval"
  radiometric_correction :: string
  slope_correction_dict :: "string \<rightharpoonup> pyval"
  outlier_removal :: string
  db :: bool

text \<open>\<open>days = 366 / 2\<close>, the float 183.0.\<close>

definition days :: rat where
  "days = 366 / 2"

text \<open>\<open>start_date\<close> and \<open>end_date\<close> after the two \<open>if target_date and not ...\<close> statements.\<close>

definition create_start_date :: "(string \<Rightarrow> int) \<Rightarrow> config \<Rightarrow> pyval" where
  "create_start_date parse cfg =
     (if truthy (target_date cfg) \<and> \<not> truthy (start_date cfg)
      then subtract_days parse (target_date cfg) days
      else start_date cfg)"

definition create_end_date :: "(string \<Rightarrow> int) \<Rightarrow> config \<Rightarrow> pyval" where
  "create_end_date parse cfg =
     (if truthy (target_date cfg) \<and> \<not> truthy (end_date cfg)
      then add_days parse (target_date cfg) days
      else end_date cfg)"

subsection \<open>The transformation steps\<close>

definition set_resample :: "ee \<Rightarrow> ee" where
  "set_resample img = meth img ''resample'' []"

definition to_gamma0 :: "ee \<Rightarrow> ee" where
  "to_gamma0 img =
     (let gamma0 = meth img ''expression''
            [Str ''i/(cos(angle * pi / 180))'',
             Dict [(''i'', meth img ''select'' [Lst [Str ''VV'', Str ''VH'']]),
                   (''angle'', meth img ''select'' [Str ''angle'']),
                   (''pi'', Flt FPi)]]
      in meth img ''addBands'' [gamma0, Lit PyNone, Lit (PyBool True)])"

definition boxcar_filter :: "ee \<Rightarrow> ee" where
  "boxcar_filter img =
     (let filtered = meth (meth (meth img ''select'' [Lst [Str ''VV'', Str ''VH'']])
            ''reduceNeighborhood''
              [Call ''ee.Reducer.mean'' [], Call ''ee.Kernel.square'' [Num 30, Str ''meters'']])
            ''rename'' [Lst [Str ''VV'', Str ''VH'']]
      in meth img ''addBands'' [filtered, Lit PyNone, Lit (PyBool True)])"

definition quegan :: "client \<Rightarrow> config \<Rightarrow> ee \<Rightarrow> error + ee" where
  "quegan accepts cfg img =
     (case getitem (speckle_filter_dict cfg) ''radius'' of
        Inl e \<Rightarrow> Inl e
      | Inr radius \<Rightarrow>
     (case getitem (speckle_filter_dict cfg) ''units'' of
        Inl e \<Rightarrow> Inl e
      | Inr units \<Rightarrow>
     (case getitem (speckle_filter_dict cfg) ''time_window'' of
        Inl e \<Rightarrow> Inl e
      | Inr time_window \<Rightarrow> quegan_apply accepts img radius units time_window)))"

definition terrain_flattening :: "client \<Rightarrow> config \<Rightarrow> ee \<Rightarrow> error + ee" where
  "terrain_flattening accepts cfg img =
     (case getitem (slope_correction_dict cfg) ''model'' of
        Inl e \<Rightarrow> Inl e
      | Inr model \<Rightarrow>
     (case getitem (slope_correction_dict cfg) ''dem'' of
        Inl e \<Rightarrow> Inl e
      | Inr dem \<Rightarrow>
     (case getitem (slope_correction_dict cfg) ''buffer'' of
        Inl e \<Rightarrow> Inl e
      | Inr buffer \<Rightarrow> correct accepts img model dem buffer)))"

definition mask_overlay :: "ee \<Rightarrow> ee" where
  "mask_overlay img =
     meth img ''updateMask''
       [meth (meth img ''select'' [Str ''layover'']) ''And'' [meth img ''select'' [Str ''shadow'']]]"

definition snic_bands :: ee where
  "snic_bands = Lst [Str ''VV'', Str ''VH'', Str ''VVVH_ratio'', Str ''VVVH_ND_ratio'']"

definition snic_filter :: "ee \<Rightarrow> ee" where
  "snic_filter img =
     (let snic = meth (meth (Call ''ee.Algorithms.Image.Segmentation.SNIC''
             [Kw ''image'' (meth img ''select'' [snic_bands]),
              Kw ''size'' (Num 8),
              Kw ''compactness'' (Num 5),
              Kw ''connectivity'' (Num 8),
              Kw ''neighborhoodSize'' (Num 16)])
            ''select'' [Str ''.*_mean''])
            ''rename'' [snic_bands]
      in meth img ''addBands'' [snic, Lit PyNone, Lit (PyBool True)])"

text \<open>The four bands of \<open>add_date_bands\<close>; \<open>days_from_target\<close> is its local variable.\<close>

definition days_from_target :: "pyval \<Rightarrow> ee \<Rightarrow> ee" where
  "days_from_target target img =
     meth (meth (meth img ''date'' []) ''difference'' [Call ''ee.Date'' [Lit target], Str ''day''])
       ''abs'' []"

definition dayOfYear_band :: "ee \<Rightarrow> ee" where
  "dayOfYear_band img =
     meth (meth (Call ''ee.Image''
        [meth (meth img ''date'' []) ''getRelative'' [Str ''day'', Str ''year'']])
        ''uint16'' []) ''rename'' [Str ''dayOfYear'']"

definition daysFromTarget_band :: "pyval \<Rightarrow> ee \<Rightarrow> ee" where
  "daysFromTarget_band target img =
     meth (meth (Call ''ee.Image'' [days_from_target target img])
        ''uint16'' []) ''rename'' [Str ''daysFromTarget'']"

definition quality_band :: "pyval \<Rightarrow> ee \<Rightarrow> ee" where
  "quality_band target img =
     meth (meth (Call ''ee.Image'' [meth (days_from_target target img) ''multiply'' [Num (- 1)]])
        ''int16'' []) ''rename'' [Str ''quality'']"

definition unixTimeDays_band :: "ee \<Rightarrow> ee" where
  "unixTimeDays_band img =
     meth (meth (Call ''ee.Image''
        [meth (meth (meth img ''date'' []) ''millis'' []) ''divide'' [Num millisPerDay]])
        ''uint16'' []) ''rename'' [Str ''unixTimeDays'']"

definition add_date_bands :: "config \<Rightarrow> ee \<Rightarrow> ee" where
  "add_date_bands cfg img =
     meth (meth (meth (meth img
       ''addBands'' [dayOfYear_band img])
       ''addBands'' [daysFromTarget_band (target_date cfg) img])
       ''addBands'' [quality_band (target_date cfg) img])
       ''addBands'' [unixTimeDays_band img]"

definition add_ratio_band :: "ee \<Rightarrow> ee" where
  "add_ratio_band img =
     meth img ''addBands''
       [meth (meth (meth img ''select'' [Str ''VV'']) ''subtract'' [meth img ''select'' [Str ''VH'']])
          ''rename'' [Str ''VVVH_ratio'']]"

definition add_ND_ratio_band :: "ee \<Rightarrow> ee" where
  "add_ND_ratio_band img =
     meth img ''addBands''
       [meth (meth img ''normalizedDifference'' [Lst [Str ''VV'', Str ''VH'']])
          ''rename'' [Str ''VVVH_ND_ratio'']]"

text \<open>The local variables \<open>middle_slice\<close> and \<open>not_border\<close> of \<open>mask_borders\<close>.\<close>

definition middle_slice :: "ee \<Rightarrow> ee" where
  "middle_slice img =
     (let total_slices = Call ''ee.Number'' [meth img ''get'' [Str ''totalSlices'']];
          slice_number = Call ''ee.Number'' [meth img ''get'' [Str ''sliceNumber'']]
      in Call ''ee.Image''
           [meth (meth slice_number ''gt'' [Num 1]) ''And'' [meth slice_number ''lt'' [total_slices]]])"

definition not_border :: "ee \<Rightarrow> ee" where
  "not_border img =
     meth (meth (meth img ''select'' [Str ''VV'']) ''mask'' []) ''reduceNeighborhood''
       [Kw ''reducer'' (Call ''ee.Reducer.allNonZero'' []),
        Kw ''kernel'' (Call ''ee.Kernel.circle'' [Kw ''radius'' (Num 500), Kw ''units'' (Str ''meters'')])]"

definition mask_borders :: "ee \<Rightarrow> ee" where
  "mask_borders img =
     (let angle = meth img ''select'' [Str ''angle'']
      in meth img ''updateMask''
           [meth (meth (meth angle ''gt'' [Num 31]) ''And'' [meth angle ''lt'' [Num 45]])
              ''And'' [meth (middle_slice img) ''Or'' [not_border img]]])"

definition toDb :: "ee \<Rightarrow> ee" where
  "toDb img =
     (let db = meth (meth (Call ''ee.Image'' [Num 10]) ''multiply''
                 [meth (meth img ''select'' [Lst [Str ''VV'', Str ''VH'']]) ''log10'' []])
                 ''rename'' [Lst [Str ''VV'', Str ''VH'']]
      in meth img ''addBands'' [db, Lit PyNone, Lit (PyBool True)])"

subsection \<open>pre\_process\<close>

text \<open>The functions that \<open>pre_process\<close> appends to \<open>steps\<close>, by name.\<close>

datatype step =
    S_boxcar_filter | S_refined_lee_apply | S_quegan
  | S_to_gamma0 | S_terrain_flattening | S_mask_overlay
  | S_add_date_bands | S_add_ratio_band | S_add_ND_ratio_band
  | S_snic_filter | S_toDb | S_mask_borders

definition steps :: "config \<Rightarrow> step list" where
  "steps cfg =
     (if speckle_filter cfg = ''BOXCAR'' then [S_boxcar_filter]
      else if speckle_filter cfg = ''REFINED_LEE'' then [S_refined_lee_apply]
      else if speckle_filter cfg = ''QUEGAN'' then [S_quegan]
      else [])
     @ (if radiometric_correction cfg = ''ELLIPSOID'' then [S_to_gamma0]
        else if radiometric_correction cfg = ''TERRAIN'' then [S_terrain_flattening, S_mask_overlay]
        else [])
     @ (if truthy (target_date cfg) then [S_add_date_bands] else [])
     @ (if add_ratio cfg then [S_add_ratio_band] else [])
     @ (if add_ND_ratio cfg then [S_add_ND_ratio_band] else [])
     @ (if speckle_filter cfg = ''SNC'' then [S_snic_filter] else [])
     @ (if db cfg then [S_toDb] else [])
     @ [S_mask_borders]"

fun run_step :: "client \<Rightarrow> config \<Rightarrow> step \<Rightarrow> ee \<Rightarrow> error + ee" where
  "run_step accepts cfg S_boxcar_filter img = Inr (boxcar_filter img)"
| "run_step accepts cfg S_refined_lee_apply img = Inr (refined_lee_apply img)"
| "run_step accepts cfg S_quegan img = quegan accepts cfg img"
| "run_step accepts cfg S_to_gamma0 img = Inr (to_gamma0 img)"
| "run_step accepts cfg S_terrain_flattening img = terrain_flattening accepts cfg img"
| "run_step accepts cfg S_mask_overlay img = Inr (mask_overlay img)"
| "run_step accepts cfg S_add_date_bands img = Inr (add_date_bands cfg img)"
| "run_step accepts cfg S_add_ratio_band img = Inr (add_ratio_band img)"
| "run_step accepts cfg S_add_ND_ratio_band img = Inr (add_ND_ratio_band img)"
| "run_step accepts cfg S_snic_filter img = Inr (snic_filter img)"
| "run_step accepts cfg S_toDb img = Inr (toDb img)"
| "run_step accepts cfg S_mask_borders img = Inr (mask_borders img)"

text \<open>\<open>reduce(lambda acc, process: process(acc), steps, image)\<close>: an exception of a step
  ends the reduction.\<close>

fun reduce_steps :: "client \<Rightarrow> config \<Rightarrow> step list \<Rightarrow> ee \<Rightarrow> error + ee" where
  "reduce_steps accepts cfg [] acc = Inr acc"
| "reduce_steps accepts cfg (process # rest) acc =
     (case run_step accepts cfg process acc of
        Inl e \<Rightarrow> Inl e
      | Inr acc' \<Rightarrow> reduce_steps accepts cfg rest acc')"

definition pre_process :: "client \<Rightarrow> config \<Rightarrow> ee \<Rightarrow> error + ee" where
  "pre_process accepts cfg img = reduce_steps accepts cfg (steps cfg) img"

subsection \<open>create\<close>

text \<open>The local variable \<open>reduced\<close> of \<open>mask_outliers\<close>, and the mask that its lambda
  gives each image.\<close>

definition reduced :: "ee \<Rightarrow> ee" where
  "reduced collection =
     meth (meth collection ''select'' [Lst [Str ''VV'', Str ''VH'']]) ''reduce''
       [meth (Call ''ee.Reducer.median'' []) ''combine''
          [Call ''ee.Reducer.stdDev'' [], Str [], Lit (PyBool True)]]"

definition outlier_mask :: "ee \<Rightarrow> ee \<Rightarrow> ee \<Rightarrow> ee" where
  "outlier_mask collection std_devs img =
     (let bands = Lst [Str ''VV'', Str ''VH''];
          median = meth (reduced collection) ''select'' [Str ''.*_median''];
          std_dev = meth (reduced collection) ''select'' [Str ''.*_stdDev''];
          threshold = meth std_dev ''multiply'' [std_devs]
      in meth (meth (meth (meth (meth img ''select'' [bands]) ''subtract'' [median]) ''abs'' [])
           ''lte'' [threshold]) ''reduce'' [Call ''ee.Reducer.min'' []])"

definition mask_outliers :: "ee \<Rightarrow> ee \<Rightarrow> ee" where
  "mask_outliers collection std_devs =
     meth collection ''map''
       [Lam ''image'' (meth (Var ''image'') ''updateMask''
          [outlier_mask collection std_devs (Var ''image'')])]"

text \<open>The collection before outlier removal.\<close>

definition filtered_collection :: "(string \<Rightarrow> int) \<Rightarrow> config \<Rightarrow> ee" where
  "filtered_collection parse cfg =
     meth (meth (meth (meth (meth (meth (Call ''ee.ImageCollection'' [Str S1_GRD_FLOAT])
       ''filterBounds'' [region cfg])
       ''filterDate'' [Lit (create_start_date parse cfg), Lit (create_end_date parse cfg)])
       ''filterMetadata'' [Str ''resolution_meters'', Str ''equals'', Num 10])
       ''filter'' [Call ''ee.Filter.eq'' [Str ''instrumentMode'', Str ''IW'']])
       ''filter'' [Call ''ee.Filter.And''
          [Call ''ee.Filter.listContains'' [Str ''transmitterReceiverPolarisation'', Str ''VV''],
           Call ''ee.Filter.listContains'' [Str ''transmitterReceiverPolarisation'', Str ''VH'']]])
       ''filter'' [Call ''ee.Filter.Or''
          [Lst (map (\<lambda>orbit. Call ''ee.Filter.eq'' [Str ''orbitProperties_pass'', Str orbit])
                  (orbits cfg))]]"

definition create_collection :: "client \<Rightarrow> (string \<Rightarrow> int) \<Rightarrow> config \<Rightarrow> error + ee" where
  "create_collection accepts parse cfg =
     (case ee_map (filtered_collection parse cfg) ''image'' (\<lambda>img. Inr (set_resample img)) of
        Inl e \<Rightarrow> Inl e
      | Inr resampled \<Rightarrow> ee_map resampled ''image'' (pre_process accepts cfg))"

definition create :: "client \<Rightarrow> (string \<Rightarrow> int) \<Rightarrow> config \<Rightarrow> error + ee" where
  "create accepts parse cfg =
     (case create_collection accepts parse cfg of
        Inl e \<Rightarrow> Inl e
      | Inr collection \<Rightarrow>
          if outlier_removal cfg = ''MODERATE'' then Inr (mask_outliers collection (Num 3))
          else if outlier_removal cfg = ''AGGRESSIVE''
            then Inr (mask_outliers collection (Flt (FDec 26 1)))
          else Inr collection)"

text \<open>The default arguments of \<open>create\<close>; \<open>region\<close> has none.\<close>

definition default_config :: "ee \<Rightarrow> config" where
  "default_config r =
     \<lparr> region = r,
       orbits = [''ASCENDING'', ''DESCENDING''],
       start_date = PyNone,
       end_date = PyNone,
       target_date = PyNone,
       add_ratio = True,
       add_ND_ratio = True,
       speckle_filter = ''NONE'',
       speckle_filter_dict =
         [''radius'' \<mapsto> PyInt 30, ''units'' \<mapsto> PyStr ''meters'', ''time_window'' \<mapsto> PyInt 12],
       radiometric_correction = ''ELLIPSOID'',
       slope_correction_dict =
         [''model'' \<mapsto> PyStr ''volume'', ''dem'' \<mapsto> PyStr ''USGS/SRTMGL1_003'',
          ''buffer'' \<mapsto> PyInt 12],
       outlier_removal = ''NONE'',
       db = True \<rparr>"

section \<open>Vocabulary of the properties\<close>


fun is_speckle_filter :: "step \<Rightarrow> bool" where
  "is_speckle_filter S_boxcar_filter = True"
| "is_speckle_filter S_refined_lee_apply = True"
| "is_speckle_filter S_quegan = True"
| "is_speckle_filter S_snic_filter = True"
| "is_speckle_filter s = False"

fun is_radiometric :: "step \<Rightarrow> bool" where
  "is_radiometric S_to_gamma0 = True"
| "is_radiometric S_terrain_flattening = True"
| "is_radiometric S_mask_overlay = True"
| "is_radiometric s = False"

text \<open>The dictionaries hold what \<open>quegan\<close> and \<open>terrain_flattening\<close> read from them,
  with a number where the helpers compute with the value, and the client accepts what it
  is handed.\<close>

definition quegan_args_ok :: "client \<Rightarrow> config \<Rightarrow> bool" where
  "quegan_args_ok accepts cfg =
     (case (speckle_filter_dict cfg ''radius'', speckle_filter_dict cfg ''units'',
            speckle_filter_dict cfg ''time_window'') of
        (Some radius, Some units, Some time_window) \<Rightarrow>
          py_number time_window \<noteq> None \<and> accepts ''ee.Kernel.square'' [radius, units]
      | _ \<Rightarrow> False)"

definition terrain_args_ok :: "client \<Rightarrow> config \<Rightarrow> bool" where
  "terrain_args_ok accepts cfg =
     (case (slope_correction_dict cfg ''model'', slope_correction_dict cfg ''dem'',
            slope_correction_dict cfg ''buffer'') of
        (Some model, Some dem, Some buffer) \<Rightarrow>
          (model = PyStr ''volume'' \<or> model = PyStr ''surface'')
          \<and> py_number buffer \<noteq> None \<and> accepts ''ee.Image'' [dem]
      | _ \<Rightarrow> False)"

subsection \<open>What a filtered collection holds\<close>

text \<open>
  To say which images a collection graph selects, the filter calls that \<open>_quegan.apply\<close>
  issues are read over a catalogue of scenes, with the meaning the platform documents for
  them: \<open>filterMetadata(p, 'equals', v)\<close> and \<open>Filter.eq(p, v)\<close> keep the scenes whose
  property \<open>p\<close> is \<open>v\<close>, \<open>Filter.listContains(p, x)\<close> those whose list property \<open>p\<close> holds
  \<open>x\<close>, and \<open>filterDate(a, b)\<close> those acquired from \<open>a\<close> (inclusive) to \<open>b\<close> (exclusive).
  The calendar arithmetic of \<open>Date.advance\<close> is a parameter.
\<close>

record scene =
  system_index :: string
  time_start :: int
  resolution_meters :: int
  instrumentMode :: string
  transmitterReceiverPolarisation :: "string list"
  relativeOrbitNumber_start :: int

datatype val = VNum rat | VStr string | VList "string list" | VTime int

definition scene_get :: "scene \<Rightarrow> string \<Rightarrow> val option" where
  "scene_get s p =
     (if p = ''system:index'' then Some (VStr (system_index s))
      else if p = ''system:time_start'' then Some (VNum (of_int (time_start s)))
      else if p = ''resolution_meters'' then Some (VNum (of_int (resolution_meters s)))
      else if p = ''instrumentMode'' then Some (VStr (instrumentMode s))
      else if p = ''transmitterReceiverPolarisation''
        then Some (VList (transmitterReceiverPolarisation s))
      else if p = ''relativeOrbitNumber_start''
        then Some (VNum (of_int (relativeOrbitNumber_start s)))
      else None)"

text \<open>The value of an argument; \<open>this\<close> is the scene that the placeholder \<open>image\<close> of the
  mapped function stands for.\<close>

fun eval_val :: "(rat \<Rightarrow> string \<Rightarrow> int \<Rightarrow> int) \<Rightarrow> scene \<Rightarrow> ee \<Rightarrow> val option" where
  "eval_val advance this (Lit v) =
     (case v of PyStr s \<Rightarrow> Some (VStr s) | _ \<Rightarrow> map_option VNum (py_number v))"
| "eval_val advance this (Call f [x]) =
     (if f = ''ee.Number'' then eval_val advance this x
      else if f = ''date'' \<and> x = Var ''image'' then Some (VTime (time_start this))
      else None)"
| "eval_val advance this (Call f [x, p]) =
     (if f = ''get'' \<and> x = Var ''image''
      then (case p of Lit (PyStr name) \<Rightarrow> scene_get this name | _ \<Rightarrow> None)
      else None)"
| "eval_val advance this (Call f [d, n, u]) =
     (if f = ''advance''
      then (case (eval_val advance this d, eval_val advance this n, u) of
              (Some (VTime t), Some (VNum k), Lit (PyStr unit)) \<Rightarrow> Some (VTime (advance k unit t))
            | _ \<Rightarrow> None)
      else None)"
| "eval_val advance this e = None"

fun eval_filter :: "(rat \<Rightarrow> string \<Rightarrow> int \<Rightarrow> int) \<Rightarrow> scene \<Rightarrow> ee \<Rightarrow> scene \<Rightarrow> bool option" where
  "eval_filter advance this (Call f [a, b]) s =
     (if f = ''ee.Filter.eq''
      then (case (a, eval_val advance this b) of
              (Lit (PyStr p), Some v) \<Rightarrow> Some (scene_get s p = Some v)
            | _ \<Rightarrow> None)
      else if f = ''ee.Filter.listContains''
      then (case (a, b) of
              (Lit (PyStr p), Lit (PyStr x)) \<Rightarrow>
                (case scene_get s p of Some (VList xs) \<Rightarrow> Some (x \<in> set xs) | _ \<Rightarrow> None)
            | _ \<Rightarrow> None)
      else if f = ''ee.Filter.And''
      then (case (eval_filter advance this a s, eval_filter advance this b s) of
              (Some x, Some y) \<Rightarrow> Some (x \<and> y)
            | _ \<Rightarrow> None)
      else None)"
| "eval_filter advance this e s = None"

text \<open>The scenes kept by \<open>p\<close>, when \<open>p\<close> has a value on every scene.\<close>

definition keep :: "(scene \<Rightarrow> bool option) \<Rightarrow> scene list \<Rightarrow> scene list option" where
  "keep p xs = (if list_all (\<lambda>s. p s \<noteq> None) xs then Some (filter (\<lambda>s. p s = Some True) xs) else None)"

fun eval_collection ::
  "(string \<Rightarrow> scene list) \<Rightarrow> (rat \<Rightarrow> string \<Rightarrow> int \<Rightarrow> int) \<Rightarrow> scene \<Rightarrow> ee \<Rightarrow> scene list option" where
  "eval_collection catalogue advance this (Call f [x]) =
     (if f = ''ee.ImageCollection''
      then (case x of Lit (PyStr name) \<Rightarrow> Some (catalogue name) | _ \<Rightarrow> None)
      else None)"
| "eval_collection catalogue advance this (Call f [c, flt]) =
     (if f = ''filter''
      then (case eval_collection catalogue advance this c of
              Some xs \<Rightarrow> keep (eval_filter advance this flt) xs
            | None \<Rightarrow> None)
      else None)"
| "eval_collection catalogue advance this (Call f [c, a, b]) =
     (if f = ''filterDate''
      then (case (eval_collection catalogue advance this c,
                  eval_val advance this a, eval_val advance this b) of
              (Some xs, Some (VTime t1), Some (VTime t2)) \<Rightarrow>
                Some (filter (\<lambda>s. t1 \<le> time_start s \<and> time_start s < t2) xs)
            | _ \<Rightarrow> None)
      else None)"
| "eval_collection catalogue advance this (Call f [c, p, rel, v]) =
     (if f = ''filterMetadata'' \<and> rel = Str ''equals''
      then (case (eval_collection catalogue advance this c, p, eval_val advance this v) of
              (Some xs, Lit (PyStr name), Some w) \<Rightarrow>
                Some (filter (\<lambda>s. scene_get s name = Some w) xs)
            | _ \<Rightarrow> None)
      else None)"
| "eval_collection catalogue advance this e = None"

section \<open>Step selection in pre\_process\<close>

text \<open>
  C1. With \<open>speckle_filter = 'SNIC'\<close> the pipeline should hold \<open>snic_filter\<close>. The source
  compares the option with \<open>'SNC'\<close>: with \<open>'SNIC'\<close> no speckle-filter step is selected at
  all, the pipeline is the one of \<open>'NONE'\<close>, and only the undocumented value \<open>'SNC'\<close> selects
  \<open>snic_filter\<close>.
\<close>

theorem SNIC_selects_no_snic_filter:
  "filter is_speckle_filter (steps (cfg\<lparr>speckle_filter := ''SNIC''\<rparr>)) = []
   \<and> steps (cfg\<lparr>speckle_filter := ''SNIC''\<rparr>) = steps (cfg\<lparr>speckle_filter := ''NONE''\<rparr>)
   \<and> filter is_speckle_filter (steps (cfg\<lparr>speckle_filter := ''SNC''\<rparr>)) = [S_snic_filter]"
  by (simp add: steps_def)

text \<open>
  C6. \<open>'ELLIPSOID'\<close> selects exactly \<open>to_gamma0\<close>; \<open>'TERRAIN'\<close> selects exactly
  \<open>terrain_flattening\<close> followed by \<open>mask_overlay\<close>; \<open>'NONE'\<close> selects no
  radiometric-correction step.
\<close>

theorem radiometric_correction_steps:
  "filter is_radiometric (steps (cfg\<lparr>radiometric_correction := ''ELLIPSOID''\<rparr>)) = [S_to_gamma0]
   \<and> filter is_radiometric (steps (cfg\<lparr>radiometric_correction := ''TERRAIN''\<rparr>))
       = [S_terrain_flattening, S_mask_overlay]
   \<and> filter is_radiometric (steps (cfg\<lparr>radiometric_correction := ''NONE''\<rparr>)) = []"
  by (simp add: steps_def)

subsection \<open>The order of application\<close>

lemma reduce_steps_append:
  "reduce_steps accepts cfg (xs @ ys) acc =
     (case reduce_steps accepts cfg xs acc of
        Inl e \<Rightarrow> Inl e
      | Inr acc' \<Rightarrow> reduce_steps accepts cfg ys acc')"
  by (induction xs arbitrary: acc) (auto split: sum.splits)




text \<open>
  C8. A target date that is given but falsy for Python, the timestamp 0, does not select
  the date-band step: the pipeline of the default configuration with \<open>target_date = 0\<close>
  adds the ratio bands after the gamma-naught calibration, and no date band.
\<close>

theorem zero_target_date_adds_no_date_bands:
  "target_date ((default_config (Var ''region''))\<lparr>target_date := PyInt 0\<rparr>) = PyInt 0
   \<and> S_add_date_bands
       \<notin> set (steps ((default_config (Var ''region''))\<lparr>target_date := PyInt 0\<rparr>))
   \<and> pre_process (\<lambda>f args. True) ((default_config (Var ''region''))\<lparr>target_date := PyInt 0\<rparr>)
        (Var ''image'')
      = Inr (mask_borders (toDb (add_ND_ratio_band (add_ratio_band (to_gamma0 (Var ''image''))))))"
  by (simp add: steps_def default_config_def pre_process_def)

section \<open>create\<close>

text \<open>
  C2. A start date that is supplied but falsy for Python, the timestamp 0 (the epoch), is
  replaced by the target date minus 183 days.
\<close>

theorem zero_start_date_is_replaced:
  "start_date ((default_config (Var ''region''))
      \<lparr>target_date := PyInt 1577836800000, start_date := PyInt 0\<rparr>) = PyInt 0
   \<and> create_start_date (\<lambda>s. 0) ((default_config (Var ''region''))
      \<lparr>target_date := PyInt 1577836800000, start_date := PyInt 0\<rparr>) = PyInt 1562025600000"
  by (simp add: create_start_date_def subtract_days_def default_config_def days_def
        millisPerDay_def)

text \<open>
  C5. \<open>create\<close> returns the pre-processed collection \<open>c\<close> itself unless
  \<open>outlier_removal\<close> is \<open>'MODERATE'\<close> or \<open>'AGGRESSIVE'\<close>; then every image of \<open>c\<close> is
  masked to the pixels where, for VV and for VH (the minimum over the two bands), the
  distance to the median of \<open>c\<close> is at most the standard deviation of \<open>c\<close> times 3,
  respectively times 2.6.
\<close>

theorem outlier_removal_thresholds:
  "create accepts parse cfg =
     (case create_collection accepts parse cfg of
        Inl e \<Rightarrow> Inl e
      | Inr c \<Rightarrow>
          (let stats = meth (meth c ''select'' [Lst [Str ''VV'', Str ''VH'']]) ''reduce''
                 [meth (Call ''ee.Reducer.median'' []) ''combine''
                    [Call ''ee.Reducer.stdDev'' [], Str [], Lit (PyBool True)]];
               median = meth stats ''select'' [Str ''.*_median''];
               std_dev = meth stats ''select'' [Str ''.*_stdDev''];
               masked = (\<lambda>k. meth c ''map'' [Lam ''image'' (meth (Var ''image'') ''updateMask''
                 [meth (meth (meth (meth (meth (Var ''image'')
                    ''select'' [Lst [Str ''VV'', Str ''VH'']])
                    ''subtract'' [median])
                    ''abs'' [])
                    ''lte'' [meth std_dev ''multiply'' [k]])
                    ''reduce'' [Call ''ee.Reducer.min'' []]])])
           in Inr (if outlier_removal cfg = ''MODERATE'' then masked (Num 3)
                   else if outlier_removal cfg = ''AGGRESSIVE'' then masked (Flt (FDec 26 1))
                   else c)))"
  by (simp add: create_def mask_outliers_def outlier_mask_def reduced_def Let_def
        split: sum.splits)

subsection \<open>The last step\<close>

lemma steps_snoc: "steps cfg = butlast (steps cfg) @ [S_mask_borders]"
  by (simp add: steps_def butlast_append)

lemma pre_process_last:
  "pre_process accepts cfg img =
     (case reduce_steps accepts cfg (butlast (steps cfg)) img of
        Inl e \<Rightarrow> Inl e
      | Inr x \<Rightarrow> Inr (mask_borders x))"
proof -
  have "pre_process accepts cfg img =
          reduce_steps accepts cfg (butlast (steps cfg) @ [S_mask_borders]) img"
    unfolding pre_process_def using steps_snoc [of cfg] by simp
  then show ?thesis
    by (simp add: reduce_steps_append split: sum.splits)
qed

text \<open>
  C9. \<open>mask_borders\<close> is the last step of every pipeline. Whenever the steps before it
  return an image \<open>x\<close>, \<open>create\<close> returns the collection whose every image is \<open>x\<close> masked
  by: angle greater than 31, and angle less than 45, and (middle slice or not border);
  outlier removal, when selected, masks the images of that collection further.
\<close>

theorem mask_borders_is_last:
  "last (steps cfg) = S_mask_borders
   \<and> create accepts parse cfg =
       (case reduce_steps accepts cfg (butlast (steps cfg)) (Var ''image'') of
          Inl e \<Rightarrow> Inl e
        | Inr x \<Rightarrow>
            (let angle = meth x ''select'' [Str ''angle''];
                 total_slices = Call ''ee.Number'' [meth x ''get'' [Str ''totalSlices'']];
                 slice_number = Call ''ee.Number'' [meth x ''get'' [Str ''sliceNumber'']];
                 middle_slice = Call ''ee.Image''
                    [meth (meth slice_number ''gt'' [Num 1]) ''And''
                       [meth slice_number ''lt'' [total_slices]]];
                 not_border = meth (meth (meth x ''select'' [Str ''VV'']) ''mask'' [])
                    ''reduceNeighborhood''
                      [Kw ''reducer'' (Call ''ee.Reducer.allNonZero'' []),
                       Kw ''kernel'' (Call ''ee.Kernel.circle''
                          [Kw ''radius'' (Num 500), Kw ''units'' (Str ''meters'')])];
                 masked = meth x ''updateMask''
                    [meth (meth (meth angle ''gt'' [Num 31]) ''And'' [meth angle ''lt'' [Num 45]])
                       ''And'' [meth middle_slice ''Or'' [not_border]]];
                 collection = meth (meth (filtered_collection parse cfg)
                    ''map'' [Lam ''image'' (meth (Var ''image'') ''resample'' [])])
                    ''map'' [Lam ''image'' masked]
             in Inr (if outlier_removal cfg = ''MODERATE''
                       then mask_outliers collection (Num 3)
                     else if outlier_removal cfg = ''AGGRESSIVE''
                       then mask_outliers collection (Flt (FDec 26 1))
                     else collection)))"
proof
  show "last (steps cfg) = S_mask_borders"
    by (simp add: steps_def)
next
  show "create accepts parse cfg =
       (case reduce_steps accepts cfg (butlast (steps cfg)) (Var ''image'') of
          Inl e \<Rightarrow> Inl e
        | Inr x \<Rightarrow>
            (let angle = meth x ''select'' [Str ''angle''];
                 total_slices = Call ''ee.Number'' [meth x ''get'' [Str ''totalSlices'']];
                 slice_number = Call ''ee.Number'' [meth x ''get'' [Str ''sliceNumber'']];
                 middle_slice = Call ''ee.Image''
                    [meth (meth slice_number ''gt'' [Num 1]) ''And''
                       [meth slice_number ''lt'' [total_slices]]];
                 not_border = meth (meth (meth x ''select'' [Str ''VV'']) ''mask'' [])
                    ''reduceNeighborhood''
                      [Kw ''reducer'' (Call ''ee.Reducer.allNonZero'' []),
                       Kw ''kernel'' (Call ''ee.Kernel.circle''
                          [Kw ''radius'' (Num 500), Kw ''units'' (Str ''meters'')])];
                 masked = meth x ''updateMask''
                    [meth (meth (meth angle ''gt'' [Num 31]) ''And'' [meth angle ''lt'' [Num 45]])
                       ''And'' [meth middle_slice ''Or'' [not_border]]];
                 collection = meth (meth (filtered_collection parse cfg)
                    ''map'' [Lam ''image'' (meth (Var ''image'') ''resample'' [])])
                    ''map'' [Lam ''image'' masked]
             in Inr (if outlier_removal cfg = ''MODERATE''
                       then mask_outliers collection (Num 3)
                     else if outlier_removal cfg = ''AGGRESSIVE''
                       then mask_outliers collection (Flt (FDec 26 1))
                     else collection)))"
    by (simp add: create_def create_collection_def ee_map_def set_resample_def pre_process_last
          mask_borders_def middle_slice_def not_border_def Let_def split: sum.splits)
qed

section \<open>Local errors\<close>

text \<open>
  C4, as stated, fails. With a client that accepts every argument, \<open>create\<close> raises
  locally for a model string other than \<open>'volume'\<close> and \<open>'surface'\<close>, for a dictionary
  without the key \<open>radius\<close>, for a time window that is a string and for a buffer that is
  a string; and with a client that takes only a number for the radius of a kernel, or
  that cannot convert a datetime to an image, it raises for such a radius and such an
  elevation model while the graph is built.
\<close>

theorem invalid_configuration_raises_locally:
  "create (\<lambda>f args. True) (\<lambda>s. 0) ((default_config (Var ''region''))
      \<lparr>radiometric_correction := ''TERRAIN'',
       slope_correction_dict :=
         [''model'' \<mapsto> PyStr ''linear'', ''dem'' \<mapsto> PyStr ''USGS/SRTMGL1_003'',
          ''buffer'' \<mapsto> PyInt 12]\<rparr>) = Inl (UnboundLocalError ''scf'')
   \<and> create (\<lambda>f args. True) (\<lambda>s. 0) ((default_config (Var ''region''))
      \<lparr>speckle_filter := ''QUEGAN'',
       speckle_filter_dict := [''units'' \<mapsto> PyStr ''meters'', ''time_window'' \<mapsto> PyInt 12]\<rparr>)
     = Inl (KeyError ''radius'')
   \<and> create (\<lambda>f args. True) (\<lambda>s. 0) ((default_config (Var ''region''))
      \<lparr>speckle_filter := ''QUEGAN'',
       speckle_filter_dict :=
         [''radius'' \<mapsto> PyInt 30, ''units'' \<mapsto> PyStr ''meters'',
          ''time_window'' \<mapsto> PyStr ''12'']\<rparr>)
     = Inl (TypeError ''bad operand type for unary -'')
   \<and> create (\<lambda>f args. True) (\<lambda>s. 0) ((default_config (Var ''region''))
      \<lparr>radiometric_correction := ''TERRAIN'',
       slope_correction_dict :=
         [''model'' \<mapsto> PyStr ''volume'', ''dem'' \<mapsto> PyStr ''USGS/SRTMGL1_003'',
          ''buffer'' \<mapsto> PyStr ''12'']\<rparr>) = Inl (TypeError ''> not supported'')
   \<and> create (\<lambda>f args. f \<noteq> ''ee.Kernel.square'' \<or> py_number (hd args) \<noteq> None) (\<lambda>s. 0)
       ((default_config (Var ''region''))
      \<lparr>speckle_filter := ''QUEGAN'',
       speckle_filter_dict :=
         [''radius'' \<mapsto> PyStr ''thirty'', ''units'' \<mapsto> PyStr ''meters'',
          ''time_window'' \<mapsto> PyInt 12]\<rparr>)
     = Inl (EEException ''ee.Kernel.square'')
   \<and> create (\<lambda>f args. f \<noteq> ''ee.Image'' \<or> args \<noteq> [PyDatetime 0]) (\<lambda>s. 0)
       ((default_config (Var ''region''))
      \<lparr>radiometric_correction := ''TERRAIN'',
       slope_correction_dict :=
         [''model'' \<mapsto> PyStr ''volume'', ''dem'' \<mapsto> PyDatetime 0,
          ''buffer'' \<mapsto> PyInt 12]\<rparr>) = Inl (EEException ''ee.Image'')"
  by (simp add: create_def create_collection_def ee_map_def pre_process_def steps_def
      default_config_def terrain_flattening_def quegan_def quegan_apply_def quegan_filtered_def
      mapMeanSpace_def getitem_def correct_def resampled_elevation_def scf_def masking_def
      client_check_def Let_def)

lemma py_neg_number:
  "py_number v = Some m \<Longrightarrow> \<exists>w. py_neg v = Inr w \<and> py_number w = Some (- m)"
  by (cases v) auto

lemma py_gt_zero_number: "py_number v = Some m \<Longrightarrow> py_gt_zero v = Inr (0 < m)"
  by (cases v) (auto split: if_splits)

lemma masking_number:
  assumes "py_number buffer = Some m"
  shows "masking a t buffer =
     Inr (if 0 < m
          then combine_masks (erode (layover_mask a t) buffer) (erode (shadow_mask a t) buffer)
          else combine_masks (layover_mask a t) (shadow_mask a t))"
  using py_gt_zero_number [OF assms] by (simp add: masking_def Let_def)

lemma quegan_total:
  assumes "quegan_args_ok accepts cfg"
  shows "\<exists>g. quegan accepts cfg img = Inr g"
proof -
  from assms obtain r u w m where d:
    "speckle_filter_dict cfg ''radius'' = Some r" "speckle_filter_dict cfg ''units'' = Some u"
    "speckle_filter_dict cfg ''time_window'' = Some w" "py_number w = Some m"
    "accepts ''ee.Kernel.square'' [r, u]"
    by (auto simp add: quegan_args_ok_def split: option.splits)
  obtain v where "py_neg w = Inr v" using py_neg_number [OF d(4)] by blast
  with d show ?thesis
    by (simp add: quegan_def getitem_def quegan_apply_def quegan_filtered_def ee_map_def
          mapMeanSpace_def client_check_def)
qed

lemma terrain_flattening_total:
  assumes "terrain_args_ok accepts cfg"
  shows "\<exists>g. terrain_flattening accepts cfg img = Inr g"
proof -
  from assms obtain mo d b m where d:
    "slope_correction_dict cfg ''model'' = Some mo" "mo = PyStr ''volume'' \<or> mo = PyStr ''surface''"
    "slope_correction_dict cfg ''dem'' = Some d"
    "slope_correction_dict cfg ''buffer'' = Some b" "py_number b = Some m"
    "accepts ''ee.Image'' [d]"
    by (auto simp add: terrain_args_ok_def split: option.splits)
  show ?thesis
    using d masking_number [OF d(5)]
    by (auto simp add: terrain_flattening_def getitem_def correct_def resampled_elevation_def
          scf_def client_check_def)
qed

lemma run_step_total:
  assumes "s = S_quegan \<Longrightarrow> quegan_args_ok accepts cfg"
    and "s = S_terrain_flattening \<Longrightarrow> terrain_args_ok accepts cfg"
  shows "\<exists>g. run_step accepts cfg s img = Inr g"
  using assms quegan_total terrain_flattening_total by (cases s) simp_all

lemma reduce_steps_total:
  assumes "S_quegan \<in> set xs \<Longrightarrow> quegan_args_ok accepts cfg"
    and "S_terrain_flattening \<in> set xs \<Longrightarrow> terrain_args_ok accepts cfg"
  shows "\<exists>g. reduce_steps accepts cfg xs acc = Inr g"
  using assms
proof (induction xs arbitrary: acc)
  case Nil
  then show ?case by simp
next
  case (Cons s xs)
  have "\<exists>g. run_step accepts cfg s acc = Inr g"
    using Cons.prems by (intro run_step_total) simp_all
  then obtain g where g: "run_step accepts cfg s acc = Inr g" by blast
  have "\<exists>h. reduce_steps accepts cfg xs g = Inr h"
    using Cons.prems by (intro Cons.IH) simp_all
  with g show ?case by simp
qed

lemma quegan_in_steps: "(S_quegan \<in> set (steps cfg)) = (speckle_filter cfg = ''QUEGAN'')"
  by (simp add: steps_def)

lemma terrain_in_steps:
  "(S_terrain_flattening \<in> set (steps cfg)) = (radiometric_correction cfg = ''TERRAIN'')"
  by (simp add: steps_def)

text \<open>
  C4, amended. For every value of \<open>speckle_filter\<close>, \<open>radiometric_correction\<close> and
  \<open>outlier_removal\<close>, \<open>create\<close> returns a collection and raises no local error, provided
  that, when \<open>'QUEGAN'\<close> is selected, the speckle-filter dictionary holds \<open>radius\<close>,
  \<open>units\<close> and a number as \<open>time_window\<close> and the client accepts the radius and the units
  for a kernel, and that, when \<open>'TERRAIN'\<close> is selected, the slope-correction dictionary
  holds \<open>dem\<close>, a number as \<open>buffer\<close> and the model \<open>'volume'\<close> or \<open>'surface'\<close> and the client
  accepts the elevation model for an image.
\<close>

theorem create_raises_no_local_error:
  assumes "speckle_filter cfg = ''QUEGAN'' \<Longrightarrow> quegan_args_ok accepts cfg"
    and "radiometric_correction cfg = ''TERRAIN'' \<Longrightarrow> terrain_args_ok accepts cfg"
  shows "\<exists>g. create accepts parse cfg = Inr g"
proof -
  have "\<exists>body. pre_process accepts cfg (Var ''image'') = Inr body"
    unfolding pre_process_def
    using assms by (intro reduce_steps_total) (simp_all add: quegan_in_steps terrain_in_steps)
  then obtain body where "pre_process accepts cfg (Var ''image'') = Inr body" by blast
  then show ?thesis
    by (simp add: create_def create_collection_def ee_map_def)
qed

text \<open>The amended C4 at a configuration that selects both fallible steps, with the
  default dictionaries.\<close>

theorem create_raises_no_local_error_witness:
  "quegan_args_ok (\<lambda>f args. True) ((default_config (Var ''region''))
      \<lparr>speckle_filter := ''QUEGAN'', radiometric_correction := ''TERRAIN''\<rparr>)
   \<and> terrain_args_ok (\<lambda>f args. True) ((default_config (Var ''region''))
      \<lparr>speckle_filter := ''QUEGAN'', radiometric_correction := ''TERRAIN''\<rparr>)
   \<and> (\<exists>g. create (\<lambda>f args. True) (\<lambda>s. 0) ((default_config (Var ''region''))
      \<lparr>speckle_filter := ''QUEGAN'', radiometric_correction := ''TERRAIN''\<rparr>) = Inr g)"
proof -
  let ?cfg = "(default_config (Var ''region''))
      \<lparr>speckle_filter := ''QUEGAN'', radiometric_correction := ''TERRAIN''\<rparr>"
  have q: "quegan_args_ok (\<lambda>f args. True) ?cfg"
    by (simp add: quegan_args_ok_def default_config_def)
  have t: "terrain_args_ok (\<lambda>f args. True) ?cfg"
    by (simp add: terrain_args_ok_def default_config_def)
  have "\<exists>g. create (\<lambda>f args. True) (\<lambda>s. 0) ?cfg = Inr g"
    using create_raises_no_local_error [of ?cfg "\<lambda>f args. True" "\<lambda>s. 0"] q t by blast
  with q t show ?thesis by simp
qed


section \<open>The helpers\<close>

text \<open>
  C10, as stated, fails: not every call of the helpers returns an image. The slope
  correction raises for a model other than \<open>'volume'\<close> and \<open>'surface'\<close> and for a buffer
  that is a string; the multitemporal filter raises for a time window that is a string,
  and, with a client that takes only a number for the radius of a kernel, for such a
  radius.
\<close>

theorem helpers_raise:
  "correct (\<lambda>f args. True) (Var ''image'') (PyStr ''linear'') (PyStr ''USGS/SRTMGL1_003'') (PyInt 12)
     = Inl (UnboundLocalError ''scf'')
   \<and> correct (\<lambda>f args. True) (Var ''image'') (PyStr ''volume'') (PyStr ''USGS/SRTMGL1_003'')
       (PyStr ''12'') = Inl (TypeError ''> not supported'')
   \<and> correct (\<lambda>f args. f \<noteq> ''ee.Image'' \<or> args \<noteq> [PyDatetime 0]) (Var ''image'')
       (PyStr ''volume'') (PyDatetime 0) (PyInt 12) = Inl (EEException ''ee.Image'')
   \<and> quegan_apply (\<lambda>f args. True) (Var ''image'') (PyInt 30) (PyStr ''meters'') (PyStr ''12'')
     = Inl (TypeError ''bad operand type for unary -'')
   \<and> quegan_apply (\<lambda>f args. f \<noteq> ''ee.Kernel.square'' \<or> py_number (hd args) \<noteq> None)
       (Var ''image'') (PyStr ''thirty'') (PyStr ''meters'') (PyInt 12)
     = Inl (EEException ''ee.Kernel.square'')"
  by (simp add: correct_def resampled_elevation_def scf_def masking_def quegan_apply_def
        quegan_filtered_def ee_map_def
        mapMeanSpace_def client_check_def Let_def)

text \<open>
  C10, amended. For every input image: given a number as time window and a radius and
  units that the client accepts, the multitemporal filter returns its filtered bands with
  the properties of the image copied and \<open>system:time_start\<close> set to that of the image;
  given the model \<open>'volume'\<close> or \<open>'surface'\<close>, a number as buffer and an elevation model that
  the client accepts, so does the slope correction. The layover and shadow masks among
  its bands are buffered (masked to the pixels farther than the buffer from a zero pixel)
  when the buffer is greater than zero, and are the unbuffered masks otherwise.
\<close>

theorem helpers_keep_properties:
  assumes "py_number time_window \<noteq> None" and "accepts ''ee.Kernel.square'' [radius, units]"
    and "model = PyStr ''volume'' \<or> model = PyStr ''surface''"
    and "py_number buffer \<noteq> None" and "accepts ''ee.Image'' [elevation]"
  shows "(\<exists>before filtered. py_neg time_window = Inr before
            \<and> quegan_filtered accepts img radius units before time_window = Inr filtered
            \<and> quegan_apply accepts img radius units time_window =
                Inr (Call ''ee.Image''
                  [meth (meth filtered ''copyProperties'' [img])
                     ''set'' [Str ''system:time_start'', meth img ''get'' [Str ''system:time_start'']]]))
         \<and> (\<exists>scf'. scf img model (meth (Call ''ee.Image'' [Lit elevation]) ''resample'' []) = Inr scf'
            \<and> correct accepts img model elevation buffer =
                (let elevation' = meth (Call ''ee.Image'' [Lit elevation]) ''resample'' [];
                     layover = layover_mask (alpha_rRad img elevation') (theta_iRad img);
                     shadow = shadow_mask (alpha_rRad img elevation') (theta_iRad img);
                     buffered = (\<lambda>mask. meth mask ''updateMask''
                        [meth (meth (meth (meth (meth (meth mask ''Not'' []) ''unmask'' [Num 1])
                           ''fastDistanceTransform'' [Num 30]) ''sqrt'' [])
                           ''multiply'' [meth (Call ''ee.Image.pixelArea'' []) ''sqrt'' []])
                           ''gt'' [Lit buffer]]);
                     combined = (\<lambda>l s. meth (meth l ''addBands'' [s]) ''addBands''
                        [meth (meth l ''And'' [s]) ''rename'' [Str ''no_data_mask'']]);
                     masks = (if py_gt_zero buffer = Inr True
                              then combined (buffered layover) (buffered shadow)
                              else combined layover shadow)
                 in Inr (Call ''ee.Image''
                      [meth (meth (corrected_bands img elevation' scf' masks) ''copyProperties'' [img])
                         ''set'' [Str ''system:time_start'',
                                  meth img ''get'' [Str ''system:time_start'']]])))"
proof
  from assms(1) obtain m where "py_number time_window = Some m" by blast
  then obtain before where b: "py_neg time_window = Inr before"
    using py_neg_number by blast
  with assms(2) show "\<exists>before filtered. py_neg time_window = Inr before
            \<and> quegan_filtered accepts img radius units before time_window = Inr filtered
            \<and> quegan_apply accepts img radius units time_window =
                Inr (Call ''ee.Image''
                  [meth (meth filtered ''copyProperties'' [img])
                     ''set'' [Str ''system:time_start'', meth img ''get'' [Str ''system:time_start'']]])"
    by (simp add: quegan_apply_def quegan_filtered_def ee_map_def mapMeanSpace_def
          client_check_def with_properties_of_def)
next
  from assms(4) obtain m where m: "py_number buffer = Some m" by blast
  have g: "py_gt_zero buffer = Inr (0 < m)" by (rule py_gt_zero_number [OF m])
  from assms(3) obtain scf' where
    s: "scf img model (meth (Call ''ee.Image'' [Lit elevation]) ''resample'' []) = Inr scf'"
    by (auto simp add: scf_def)
  show "\<exists>scf'. scf img model (meth (Call ''ee.Image'' [Lit elevation]) ''resample'' []) = Inr scf'
            \<and> correct accepts img model elevation buffer =
                (let elevation' = meth (Call ''ee.Image'' [Lit elevation]) ''resample'' [];
                     layover = layover_mask (alpha_rRad img elevation') (theta_iRad img);
                     shadow = shadow_mask (alpha_rRad img elevation') (theta_iRad img);
                     buffered = (\<lambda>mask. meth mask ''updateMask''
                        [meth (meth (meth (meth (meth (meth mask ''Not'' []) ''unmask'' [Num 1])
                           ''fastDistanceTransform'' [Num 30]) ''sqrt'' [])
                           ''multiply'' [meth (Call ''ee.Image.pixelArea'' []) ''sqrt'' []])
                           ''gt'' [Lit buffer]]);
                     combined = (\<lambda>l s. meth (meth l ''addBands'' [s]) ''addBands''
                        [meth (meth l ''And'' [s]) ''rename'' [Str ''no_data_mask'']]);
                     masks = (if py_gt_zero buffer = Inr True
                              then combined (buffered layover) (buffered shadow)
                              else combined layover shadow)
                 in Inr (Call ''ee.Image''
                      [meth (meth (corrected_bands img elevation' scf' masks) ''copyProperties'' [img])
                         ''set'' [Str ''system:time_start'',
                                  meth img ''get'' [Str ''system:time_start'']]]))"
    using s g assms(5)
    by (simp add: correct_def resampled_elevation_def client_check_def masking_def erode_def
          combine_masks_def
          with_properties_of_def Let_def)
qed

text \<open>The amended C10 at a time window of 12 months and a buffer of 0.5.\<close>

theorem helpers_keep_properties_witness:
  "py_number (PyInt 12) \<noteq> None \<and> py_number (PyFloat (1 / 2)) \<noteq> None
   \<and> (\<exists>filtered. quegan_apply (\<lambda>f args. True) (Var ''image'') (PyInt 30) (PyStr ''meters'') (PyInt 12) =
         Inr (Call ''ee.Image''
           [meth (meth filtered ''copyProperties'' [Var ''image''])
              ''set'' [Str ''system:time_start'', meth (Var ''image'') ''get'' [Str ''system:time_start'']]]))
   \<and> (\<exists>bands. correct (\<lambda>f args. True) (Var ''image'') (PyStr ''volume'') (PyStr ''USGS/SRTMGL1_003'')
         (PyFloat (1 / 2)) =
         Inr (Call ''ee.Image''
           [meth (meth bands ''copyProperties'' [Var ''image''])
              ''set'' [Str ''system:time_start'', meth (Var ''image'') ''get'' [Str ''system:time_start'']]]))"
proof -
  have a: "py_number (PyInt 12) \<noteq> None" by simp
  have b: "py_number (PyFloat (1 / 2)) \<noteq> None" by simp
  show ?thesis
    using helpers_keep_properties [where accepts = "\<lambda>f args. True" and time_window = "PyInt 12"
        and radius = "PyInt 30" and units = "PyStr ''meters''" and model = "PyStr ''volume''"
        and buffer = "PyFloat (1 / 2)" and elevation = "PyStr ''USGS/SRTMGL1_003''"
        and img = "Var ''image''"] a b
    by (auto simp add: Let_def)
qed


section \<open>The reference collection of the multitemporal filter\<close>

text \<open>
  C7, as stated, fails: a scene acquired within the window of 12 months around the image,
  on the same relative orbit, but in EW mode at 40 m with the polarisations HH and HV, is
  not in the reference collection.
\<close>

theorem scene_in_window_left_out:
  "(1577836800000 + \<lfloor>(- 12) * (2629800000 :: rat)\<rfloor> \<le> (1580000000000 :: int)
      \<and> (1580000000000 :: int) < 1577836800000 + \<lfloor>12 * (2629800000 :: rat)\<rfloor>)
   \<and> eval_collection
       (\<lambda>name. [\<lparr> system_index = ''S1A_EW'', time_start = 1580000000000,
                  resolution_meters = 40, instrumentMode = ''EW'',
                  transmitterReceiverPolarisation = [''HH'', ''HV''],
                  relativeOrbitNumber_start = 15 \<rparr>])
       (\<lambda>k unit t. t + \<lfloor>k * 2629800000\<rfloor>)
       \<lparr> system_index = ''S1A_IW'', time_start = 1577836800000,
         resolution_meters = 10, instrumentMode = ''IW'',
         transmitterReceiverPolarisation = [''VV'', ''VH''],
         relativeOrbitNumber_start = 15 \<rparr>
       (quegan_s1 (Var ''image'') (PyInt (- 12)) (PyInt 12))
     = Some []"
  by (simp add: quegan_s1_def quegan_fro_def quegan_to_def keep_def scene_get_def)

text \<open>
  C7, amended. For every image and every positive \<open>time_window\<close>, \<open>apply\<close> negates the
  window, and the collection \<open>s1\<close>, from which it computes the means and ratios of its
  result, holds exactly the scenes of \<open>COPERNICUS/S1_GRD_FLOAT\<close> with a resolution of
  10 m, in IW mode, with both the VV and the VH polarisation, acquired between
  \<open>time_window\<close> months before and \<open>time_window\<close> months after the date of the image, on
  the relative orbit of the image. The image is the placeholder of the mapped function;
  \<open>this\<close> is the scene it stands for.
\<close>

theorem quegan_reference_collection:
  assumes "py_number time_window = Some m" and "0 < m"
  shows "\<exists>before. py_neg time_window = Inr before \<and> py_number before = Some (- m) \<and>
    (let image = Var ''image'';
         fro = meth (meth image ''date'' []) ''advance''
                 [Call ''ee.Number'' [Lit before], Str ''month''];
         to = meth (meth image ''date'' []) ''advance''
                 [Call ''ee.Number'' [Lit time_window], Str ''month''];
         s1 = meth (meth (meth (meth (meth
                (Call ''ee.ImageCollection'' [Str ''COPERNICUS/S1_GRD_FLOAT''])
                ''filterMetadata'' [Str ''resolution_meters'', Str ''equals'', Num 10])
                ''filterMetadata'' [Str ''instrumentMode'', Str ''equals'', Str ''IW''])
                ''filter'' [Call ''ee.Filter.And''
                   [Call ''ee.Filter.listContains''
                      [Str ''transmitterReceiverPolarisation'', Str ''VV''],
                    Call ''ee.Filter.listContains''
                      [Str ''transmitterReceiverPolarisation'', Str ''VH'']]])
                ''filterDate'' [fro, to])
                ''filter'' [Call ''ee.Filter.eq''
                   [Str ''relativeOrbitNumber_start'',
                    meth image ''get'' [Str ''relativeOrbitNumber_start'']]]
     in quegan_apply accepts image radius units time_window =
          (case mapMeanSpace accepts image radius units (Var ''i'') of
             Inl e \<Rightarrow> Inl e
           | Inr mean_and_ratio \<Rightarrow>
              (let s1_mean = meth s1 ''map'' [Lam ''i'' mean_and_ratio];
                   image_mean = meth (meth s1_mean ''filter''
                      [Call ''ee.Filter.eq''
                         [Str ''system:index'', meth image ''get'' [Str ''system:index'']]])
                      ''first'' [];
                   s1_ratio = meth s1_mean ''select'' [ratioBands image]
               in Inr (Call ''ee.Image''
                    [meth (meth (meth (meth (meth (meth image_mean
                       ''select'' [meanBands image])
                       ''multiply'' [meth s1_ratio ''sum'' []])
                       ''divide'' [meth s1_ratio ''count'' []])
                       ''rename'' [meth image ''bandNames'' []])
                       ''copyProperties'' [image])
                       ''set'' [Str ''system:time_start'',
                                meth image ''get'' [Str ''system:time_start'']]])))
        \<and> eval_collection catalogue advance this s1 =
            Some (filter (\<lambda>s. resolution_meters s = 10 \<and> instrumentMode s = ''IW''
                     \<and> ''VV'' \<in> set (transmitterReceiverPolarisation s)
                     \<and> ''VH'' \<in> set (transmitterReceiverPolarisation s)
                     \<and> advance (- m) ''month'' (time_start this) \<le> time_start s
                     \<and> time_start s < advance m ''month'' (time_start this)
                     \<and> relativeOrbitNumber_start s = relativeOrbitNumber_start this)
                   (catalogue ''COPERNICUS/S1_GRD_FLOAT'')))"
proof -
  have "\<exists>w. py_neg time_window = Inr w \<and> py_number w = Some (- m)"
    using assms(1) by (cases time_window) auto
  then obtain before where b: "py_neg time_window = Inr before" "py_number before = Some (- m)"
    by blast
  have nb: "\<And>s. before \<noteq> PyStr s" using b(2) by auto
  have nt: "\<And>s. time_window \<noteq> PyStr s" using assms(1) by auto
  have eb: "eval_val advance this (Lit before) = Some (VNum (- m))"
    using b(2) by (cases before) simp_all
  have et: "eval_val advance this (Lit time_window) = Some (VNum m)"
    using assms(1) by (cases time_window) simp_all
  have l1: "\<And>n. eval_val advance this (Num n) = Some (VNum (of_int n))" by simp
  have l2: "\<And>s. eval_val advance this (Str s) = Some (VStr s)" by simp
  show ?thesis
    apply (rule exI [of _ before])
    apply (simp only: b simp_thms Let_def)
    apply (rule conjI)
     apply (simp add: quegan_apply_def b quegan_filtered_def ee_map_def quegan_s1_def
        quegan_fro_def quegan_to_def S1_GRD_FLOAT_def with_properties_of_def Let_def
        split: sum.splits)
    apply (simp add: keep_def scene_get_def list_all_iff eb et l1 l2
        conj_commute conj_left_commute del: eval_val.simps(1) cong: conj_cong)
    done
qed


text \<open>The amended C7 at a window of 12 months, over a catalogue of two scenes in the
  window, one on the orbit of the image and one on another.\<close>

theorem quegan_reference_collection_witness:
  "py_number (PyInt 12) = Some 12 \<and> (0 :: rat) < 12
   \<and> eval_collection
       (\<lambda>name. [\<lparr> system_index = ''S1A_IW_2'', time_start = 1580000000000,
                  resolution_meters = 10, instrumentMode = ''IW'',
                  transmitterReceiverPolarisation = [''VV'', ''VH''],
                  relativeOrbitNumber_start = 15 \<rparr>,
                \<lparr> system_index = ''S1A_IW_3'', time_start = 1580000000000,
                  resolution_meters = 10, instrumentMode = ''IW'',
                  transmitterReceiverPolarisation = [''VV'', ''VH''],
                  relativeOrbitNumber_start = 88 \<rparr>])
       (\<lambda>k unit t. t + \<lfloor>k * 2629800000\<rfloor>)
       \<lparr> system_index = ''S1A_IW'', time_start = 1577836800000,
         resolution_meters = 10, instrumentMode = ''IW'',
         transmitterReceiverPolarisation = [''VV'', ''VH''],
         relativeOrbitNumber_start = 15 \<rparr>
       (quegan_s1 (Var ''image'') (PyInt (- 12)) (PyInt 12))
     = Some [\<lparr> system_index = ''S1A_IW_2'', time_start = 1580000000000,
                  resolution_meters = 10, instrumentMode = ''IW'',
                  transmitterReceiverPolarisation = [''VV'', ''VH''],
                  relativeOrbitNumber_start = 15 \<rparr>]"
proof -
  have h1: "py_number (PyInt 12) = Some 12" by simp
  have h2: "(0 :: rat) < 12" by simp
  obtain before where b: "py_neg (PyInt 12) = Inr before"
    and stmt: "(let image = Var ''image'';
         fro = meth (meth image ''date'' []) ''advance''
                 [Call ''ee.Number'' [Lit before], Str ''month''];
         to = meth (meth image ''date'' []) ''advance''
                 [Call ''ee.Number'' [Lit (PyInt 12)], Str ''month''];
         s1 = meth (meth (meth (meth (meth
                (Call ''ee.ImageCollection'' [Str ''COPERNICUS/S1_GRD_FLOAT''])
                ''filterMetadata'' [Str ''resolution_meters'', Str ''equals'', Num 10])
                ''filterMetadata'' [Str ''instrumentMode'', Str ''equals'', Str ''IW''])
                ''filter'' [Call ''ee.Filter.And''
                   [Call ''ee.Filter.listContains''
                      [Str ''transmitterReceiverPolarisation'', Str ''VV''],
                    Call ''ee.Filter.listContains''
                      [Str ''transmitterReceiverPolarisation'', Str ''VH'']]])
                ''filterDate'' [fro, to])
                ''filter'' [Call ''ee.Filter.eq''
                   [Str ''relativeOrbitNumber_start'',
                    meth image ''get'' [Str ''relativeOrbitNumber_start'']]]
     in eval_collection
       (\<lambda>name. [\<lparr> system_index = ''S1A_IW_2'', time_start = 1580000000000,
                  resolution_meters = 10, instrumentMode = ''IW'',
                  transmitterReceiverPolarisation = [''VV'', ''VH''],
                  relativeOrbitNumber_start = 15 \<rparr>,
                \<lparr> system_index = ''S1A_IW_3'', time_start = 1580000000000,
                  resolution_meters = 10, instrumentMode = ''IW'',
                  transmitterReceiverPolarisation = [''VV'', ''VH''],
                  relativeOrbitNumber_start = 88 \<rparr>])
       (\<lambda>k unit t. t + \<lfloor>k * 2629800000\<rfloor>)
       \<lparr> system_index = ''S1A_IW'', time_start = 1577836800000,
         resolution_meters = 10, instrumentMode = ''IW'',
         transmitterReceiverPolarisation = [''VV'', ''VH''],
         relativeOrbitNumber_start = 15 \<rparr> s1 =
         Some [\<lparr> system_index = ''S1A_IW_2'', time_start = 1580000000000,
                  resolution_meters = 10, instrumentMode = ''IW'',
                  transmitterReceiverPolarisation = [''VV'', ''VH''],
                  relativeOrbitNumber_start = 15 \<rparr>])"
    using quegan_reference_collection [OF h1 h2, of "\<lambda>f args. True" "PyInt 30" "PyStr ''meters''"
        "\<lambda>name. [\<lparr> system_index = ''S1A_IW_2'', time_start = 1580000000000,
                  resolution_meters = 10, instrumentMode = ''IW'',
                  transmitterReceiverPolarisation = [''VV'', ''VH''],
                  relativeOrbitNumber_start = 15 \<rparr>,
                \<lparr> system_index = ''S1A_IW_3'', time_start = 1580000000000,
                  resolution_meters = 10, instrumentMode = ''IW'',
                  transmitterReceiverPolarisation = [''VV'', ''VH''],
                  relativeOrbitNumber_start = 88 \<rparr>]"
        "\<lambda>k unit t. t + \<lfloor>k * 2629800000\<rfloor>"
        "\<lparr> system_index = ''S1A_IW'', time_start = 1577836800000,
         resolution_meters = 10, instrumentMode = ''IW'',
         transmitterReceiverPolarisation = [''VV'', ''VH''],
         relativeOrbitNumber_start = 15 \<rparr>"]
    by (auto simp add: Let_def)
  from b have "before = PyInt (- 12)" by simp
  with stmt h1 h2 show ?thesis
    by (simp add: Let_def quegan_s1_def quegan_fro_def quegan_to_def S1_GRD_FLOAT_def
          keep_def scene_get_def)
qed


end
